theory Spec2Isabelle
  imports Main
begin

section \<open>JavaScript values used by the two pages\<close>

text \<open>
  Strings are lists of code units. The four characters outside ASCII that occur in the
  alert texts (U+00A1, U+00E1, U+00E9, U+00F3) are single code units below 256 and are
  written with their code.
\<close>

fun startsWith :: "string \<Rightarrow> string \<Rightarrow> bool" where
  "startsWith s [] = True"
| "startsWith [] (c # cs) = False"
| "startsWith (d # ds) (c # cs) = (d = c \<and> startsWith ds cs)"

text \<open>\<open>String.prototype.includes\<close>: the second string occurs at some position of the first.\<close>

fun str_includes :: "string \<Rightarrow> string \<Rightarrow> bool" where
  "str_includes [] sub = (sub = [])"
| "str_includes (d # ds) sub = (startsWith (d # ds) sub \<or> str_includes ds sub)"

text \<open>\<open>String(x)\<close> for \<open>x\<close> a string or \<open>undefined\<close> (\<open>None\<close>).\<close>

definition String_of :: "string option \<Rightarrow> string" where
  "String_of x = (case x of None \<Rightarrow> ''undefined'' | Some s \<Rightarrow> s)"

section \<open>Login.jsx: the redirect after a successful login\<close>

text \<open>
  A location object of the router. \<open>pathname\<close> is \<open>None\<close> when the property is
  \<open>undefined\<close> (a partial path object).
\<close>

record location =
  pathname :: "string option"
  search :: string
  hash :: string

text \<open>What \<open>navigate\<close> accepts and what \<open>location.state.from\<close> holds: a path string or a location object.\<close>

datatype to = ToString string | ToLocation location

text \<open>A call \<open>navigate(target, { replace })\<close>; \<open>navigate(target)\<close> has \<open>replace = False\<close>.\<close>

record navigation =
  target :: to
  replace :: bool

text \<open>
  \<open>location.state?.from\<close>: the outer option is \<open>location.state\<close> (\<open>None\<close> for
  \<open>null\<close>/\<open>undefined\<close>), the inner one the property \<open>from\<close> of the state object.
\<close>

definition state_from :: "to option option \<Rightarrow> to option" where
  "state_from st = (case st of None \<Rightarrow> None | Some s \<Rightarrow> s)"

text \<open>\<open>x || "/"\<close>: \<open>undefined\<close> and the empty string are falsy, every object is truthy.\<close>

definition or_root :: "to option \<Rightarrow> to" where
  "or_root x =
     (case x of
        None \<Rightarrow> ToString ''/''
      | Some (ToString s) \<Rightarrow> if s = [] then ToString ''/'' else ToString s
      | Some (ToLocation l) \<Rightarrow> ToLocation l)"

text \<open>\<open>from.pathname\<close>: a string primitive has no such property.\<close>

definition pathname_of :: "to \<Rightarrow> string option" where
  "pathname_of t = (case t of ToString s \<Rightarrow> None | ToLocation l \<Rightarrow> pathname l)"

text \<open>
  Lines 82-88 of Login.jsx:
  \<^verbatim>\<open>
  const from = location.state?.from || "/";
  if (from !== "/" && String(from.pathname).includes("/reset-password")) {
    navigate("/");
  } else {
    navigate(from, { replace: true });
  }
  \<close>
  The result is the \<open>navigate\<close> call that is made.
\<close>

definition resolveDestination :: "to option option \<Rightarrow> navigation" where
  "resolveDestination st =
     (let from = or_root (state_from st) in
      if from \<noteq> ToString ''/'' \<and> str_includes (String_of (pathname_of from)) ''/reset-password''
      then \<lparr>target = ToString ''/'', replace = False\<rparr>
      else \<lparr>target = from, replace = True\<rparr>)"

text \<open>The state a protected route records: \<open>{ from: l }\<close> with \<open>l\<close> a location object.\<close>

definition recorded :: "location \<Rightarrow> to option option" where
  "recorded l = Some (Some (ToLocation l))"

section \<open>What both pages share: the snackbar, the router, the network\<close>

text \<open>
  \<open>addAlert(x)\<close> queues \<open>x\<close> on the snackbar; \<open>None\<close> is \<open>undefined\<close>. \<open>navigate\<close> calls
  are logged in order. Each page's state extends this record.
\<close>

record ui =
  alerts :: "string option list"
  navigations :: "navigation list"

definition addAlert :: "string option \<Rightarrow> 'a ui_scheme \<Rightarrow> 'a ui_scheme" where
  "addAlert m st = st\<lparr>alerts := alerts st @ [m]\<rparr>"

definition navigate :: "navigation \<Rightarrow> 'a ui_scheme \<Rightarrow> 'a ui_scheme" where
  "navigate n st = st\<lparr>navigations := navigations st @ [n]\<rparr>"

text \<open>
  A primitive that the server sends as an id: a string or an integral number. The model
  is of the integers a JavaScript number holds exactly and prints in plain decimal, those
  of magnitude below \<open>2^53\<close>; beyond them a number may not hold the integer, and from
  \<open>10^21\<close> on \<open>String\<close> prints an exponent, which \<open>digits\<close> does not.
\<close>

datatype js_prim = JString string | JNumber int

function digits :: "nat \<Rightarrow> string" where
  "digits n = (if n < 10 then [''0123456789'' ! n]
               else digits (n div 10) @ [''0123456789'' ! (n mod 10)])"
  by pat_completeness auto
termination
  by (relation "measure (\<lambda>n. n)") auto

declare digits.simps [simp del]

text \<open>\<open>String(x)\<close> and template interpolation for such a primitive, \<open>undefined\<close> included.\<close>

definition String_prim :: "js_prim option \<Rightarrow> string" where
  "String_prim x =
     (case x of
        None \<Rightarrow> ''undefined''
      | Some (JString s) \<Rightarrow> s
      | Some (JNumber i) \<Rightarrow> if i < 0 then ''-'' @ digits (nat (- i)) else digits (nat i))"

text \<open>
  The parsed JSON body of a response, as far as the pages read it: \<open>data.detail\<close>,
  \<open>data.token\<close>, and \<open>data.data\<close> with its \<open>id\<close> (outer \<open>None\<close>: no \<open>data.data\<close>; inner
  \<open>None\<close>: no \<open>id\<close> in it).
\<close>

record json_data =
  detail :: "string option"
  token :: "string option"
  data :: "js_prim option option"

text \<open>
  \<open>response.json()\<close> rejects with an error (its message) or resolves; \<open>fetch\<close> rejects on
  a transport failure (with an error, its message) or resolves with a response and its
  \<open>ok\<close> flag.
\<close>

datatype json_result = JsonRejected string | JsonValue json_data

datatype fetched = FetchRejected string | Response bool json_result

text \<open>\<open>new Error(x).message\<close>: the empty string when \<open>x\<close> is \<open>undefined\<close>.\<close>

definition Error_message :: "string option \<Rightarrow> string" where
  "Error_message x = (case x of None \<Rightarrow> [] | Some s \<Rightarrow> s)"

text \<open>
  The message of the TypeError of reading \<open>id\<close> of \<open>undefined\<close>. The wording is the
  engine's; this is V8's.
\<close>

definition TypeError_message :: string where
  "TypeError_message = ''Cannot read properties of undefined (reading '' @ [CHR 0x27] @ ''id''
     @ [CHR 0x27] @ '')''"

section \<open>CreateArtifact.jsx: the draft and its form data\<close>

datatype js_file = File (file_name: string) (file_bytes: "nat list")

text \<open>
  Modelled from the spec: UploadButton.jsx, which writes the file slots through
  \<open>setStateFn\<close>, is not among the sources. A slot holds the initial empty object \<open>{}\<close>
  of lines 36-39 or a single \<open>File\<close>, as the data model of the draft says.
\<close>

datatype slot = EmptyObject | FileValue js_file

definition instanceof_File :: "slot \<Rightarrow> bool" where
  "instanceof_File v = (case v of EmptyObject \<Rightarrow> False | FileValue f \<Rightarrow> True)"

record metadata =
  opt_id :: js_prim
  opt_value :: string

text \<open>The state variable \<open>newObjectAttributes\<close> (lines 35-51).\<close>

record attributes =
  object :: slot
  texture :: slot
  material :: slot
  thumbnail :: slot
  images :: "js_file list"
  description :: string
  shape :: metadata
  culture :: metadata
  tags :: "metadata list"

definition initial_attributes :: attributes where
  "initial_attributes =
     \<lparr>object = EmptyObject, texture = EmptyObject, material = EmptyObject,
      thumbnail = EmptyObject, images = [], description = [],
      shape = \<lparr>opt_id = JString [], opt_value = []\<rparr>,
      culture = \<lparr>opt_id = JString [], opt_value = []\<rparr>,
      tags = []\<rparr>"

text \<open>
  An entry of a \<open>FormData\<close> holds a file or a string: \<open>append\<close> keeps a \<open>File\<close> and turns
  every other value into its string, the empty object into \<open>[object Object]\<close>.
\<close>

datatype entry_value = FileEntry js_file | StringEntry string

type_synonym formData = "(string \<times> entry_value) list"

definition formData_append :: "string \<Rightarrow> entry_value \<Rightarrow> formData \<Rightarrow> formData" where
  "formData_append name v fd = fd @ [(name, v)]"

definition slot_entry :: "slot \<Rightarrow> entry_value" where
  "slot_entry v = (case v of EmptyObject \<Rightarrow> StringEntry ''[object Object]'' | FileValue f \<Rightarrow> FileEntry f)"

text \<open>\<open>FormData.getAll(name)\<close>: the values appended under a name, in order.\<close>

definition getAll :: "string \<Rightarrow> formData \<Rightarrow> entry_value list" where
  "getAll name fd = map snd (filter (\<lambda>e. fst e = name) fd)"

text \<open>
  Lines 130-143: the body of the upload request. \<open>forEach\<close> is a fold over the array.
\<close>

definition build_formData :: "attributes \<Rightarrow> formData" where
  "build_formData a =
     (let fd0 = [];
          fd1 = formData_append ''model[new_object]'' (slot_entry (object a)) fd0;
          fd2 = formData_append ''model[new_texture]'' (slot_entry (texture a)) fd1;
          fd3 = formData_append ''model[new_material]'' (slot_entry (material a)) fd2;
          fd4 = formData_append ''new_thumbnail'' (slot_entry (thumbnail a)) fd3;
          fd5 = fold (\<lambda>image. formData_append ''new_images'' (FileEntry image)) (images a) fd4;
          fd6 = formData_append ''description'' (StringEntry (description a)) fd5;
          fd7 = formData_append ''id_shape'' (StringEntry (String_prim (Some (opt_id (shape a))))) fd6;
          fd8 = formData_append ''id_culture'' (StringEntry (String_prim (Some (opt_id (culture a))))) fd7
      in fold (\<lambda>tag. formData_append ''id_tags'' (StringEntry (String_prim (Some (opt_id tag)))))
           (tags a) fd8)"

section \<open>CreateArtifact.jsx: the component\<close>

text \<open>
  The state of the page between two events: the draft, the flag \<open>modelRequired\<close>
  (line 63), and the log of upload requests sent with \<open>fetch\<close>. The option lists and the
  loading flags of the metadata request take no part in what follows and are left out.
\<close>

record createArtifact = ui +
  newObjectAttributes :: attributes
  modelRequired :: bool
  uploads :: "formData list"

definition initial_createArtifact :: createArtifact where
  "initial_createArtifact =
     \<lparr>alerts = [], navigations = [], newObjectAttributes = initial_attributes,
      modelRequired = False, uploads = []\<rparr>"

text \<open>The condition of lines 66-68, and the body of the effect of lines 65-73.\<close>

abbreviation model_file_attached :: "attributes \<Rightarrow> bool" where
  "model_file_attached a \<equiv>
     instanceof_File (object a) \<or> instanceof_File (texture a) \<or> instanceof_File (material a)"

definition modelRequired_effect :: "createArtifact \<Rightarrow> createArtifact" where
  "modelRequired_effect st =
     (if model_file_attached (newObjectAttributes st)
      then st\<lparr>modelRequired := True\<rparr>
      else st\<lparr>modelRequired := False\<rparr>)"

text \<open>The dependency array of the effect (line 73).\<close>

definition effect_deps :: "attributes \<Rightarrow> slot \<times> slot \<times> slot" where
  "effect_deps a = (object a, texture a, material a)"

text \<open>
  Mounting: the initial render, after which every effect runs once.
\<close>

definition mount :: createArtifact where
  "mount = modelRequired_effect initial_createArtifact"

text \<open>
  \<open>setNewObjectAttributes(a)\<close>, called by the upload buttons and by
  \<open>handleInputChange\<close>: the draft is replaced, the page renders again, and the effect
  runs when one of its dependencies changed. The state is taken after the effects, which
  is when the next event handler runs. (React compares dependencies by identity, this
  model by value; the effect depends only on the values, so running it on equal values
  changes nothing.)
\<close>

definition setNewObjectAttributes :: "attributes \<Rightarrow> createArtifact \<Rightarrow> createArtifact" where
  "setNewObjectAttributes a st =
     (let st' = st\<lparr>newObjectAttributes := a\<rparr> in
      if effect_deps a \<noteq> effect_deps (newObjectAttributes st) then modelRequired_effect st'
      else st')"

text \<open>\<open>handleInputChange(name, value)\<close> (lines 105-107) for the four inputs that call it.\<close>

datatype input_change =
  Description string | Shape metadata | Culture metadata | Tags "metadata list"

definition handleInputChange :: "input_change \<Rightarrow> createArtifact \<Rightarrow> createArtifact" where
  "handleInputChange c st =
     (let a = newObjectAttributes st in
      setNewObjectAttributes
        (case c of
           Description v \<Rightarrow> a\<lparr>description := v\<rparr>
         | Shape v \<Rightarrow> a\<lparr>shape := v\<rparr>
         | Culture v \<Rightarrow> a\<lparr>culture := v\<rparr>
         | Tags v \<Rightarrow> a\<lparr>tags := v\<rparr>) st)"

text \<open>The two alert texts of lines 122 and 126, and the one of line 160.\<close>

definition IncompleteModelSet :: string where
  "IncompleteModelSet = ''Para subir un objeto 3d, se deben subir los tres archivos requeridos''"

definition NoAssetProvided :: string where
  "NoAssetProvided = ''Si no se sube un modelo 3d, se deben subir im'' @ [CHR 0xE1] @ ''genes''"

definition created_message :: string where
  "created_message = [CHR 0xA1] @ ''Objeto creado con '' @ [CHR 0xE9] @ ''xito!''"

text \<open>
  The submission gate of lines 116-128: \<open>Some\<close> of the alert text when \<open>handleSubmit\<close> returns
  early, \<open>None\<close> when it goes on to build the request.
\<close>

definition canSubmit :: "createArtifact \<Rightarrow> string option" where
  "canSubmit st =
     (let a = newObjectAttributes st in
      if modelRequired st then
        (if \<not> instanceof_File (object a) \<or> \<not> instanceof_File (texture a)
            \<or> \<not> instanceof_File (material a)
         then Some IncompleteModelSet else None)
      else if length (images a) = 0 then Some NoAssetProvided
      else None)"

text \<open>
  \<open>handleSubmit\<close> (lines 114-167), given what the network does with the request. The
  first component is the error with which the promise of \<open>handleSubmit\<close> rejects, if it
  does: the \<open>.catch\<close> of line 163 is on the promise of \<open>response.json().then(...)\<close>, so it
  sees a failed parse and the errors thrown in lines 155-161, and not a rejected
  \<open>fetch\<close>.
\<close>

definition handleSubmit :: "fetched \<Rightarrow> createArtifact \<Rightarrow> string option \<times> createArtifact" where
  "handleSubmit net st =
     (case canSubmit st of
        Some msg \<Rightarrow> (None, addAlert (Some msg) st)
      | None \<Rightarrow>
          (let st1 = st\<lparr>uploads := uploads st @ [build_formData (newObjectAttributes st)]\<rparr> in
           case net of
             FetchRejected e \<Rightarrow> (Some e, st1)
           | Response ok body \<Rightarrow>
               (case body of
                  JsonRejected e \<Rightarrow> (None, addAlert (Some e) st1)
                | JsonValue d \<Rightarrow>
                    if \<not> ok then (None, addAlert (Some (Error_message (detail d))) st1)
                    else
                      (case data d of
                         None \<Rightarrow> (None, addAlert (Some TypeError_message) st1)
                       | Some newArtifactId \<Rightarrow>
                           (None,
                            navigate
                              \<lparr>target = ToString (''/catalog/'' @ String_prim newArtifactId),
                               replace = False\<rparr>
                              (addAlert (Some created_message) st1))))))"

text \<open>The events of the page, and the states it can be in between events.\<close>

inductive reachable :: "createArtifact \<Rightarrow> bool" where
  reach_mount: "reachable mount"
| reach_set: "reachable st \<Longrightarrow> reachable (setNewObjectAttributes a st)"
| reach_input: "reachable st \<Longrightarrow> reachable (handleInputChange c st)"
| reach_submit: "reachable st \<Longrightarrow> reachable (snd (handleSubmit net st))"

section \<open>Login.jsx: the submission of the credentials\<close>

record credentials =
  username :: string
  password :: string

record login = ui +
  formValues :: credentials
  session_token :: "string option"

definition authentication_failed :: string where
  "authentication_failed = ''Ha ocurrido un error durante la autenticaci'' @ [CHR 0xF3] @ ''n''"

text \<open>\<open>setToken(data.token.replace(/"/g, ""))\<close>.\<close>

definition setToken :: "string \<Rightarrow> login \<Rightarrow> login" where
  "setToken t st = st\<lparr>session_token := Some t\<rparr>"

definition strip_quotes :: "string \<Rightarrow> string" where
  "strip_quotes t = filter (\<lambda>c. c \<noteq> CHR 0x22) t"

text \<open>
  \<open>handleSubmit\<close> of Login.jsx (lines 59-93), given the router state and what the network
  does. Everything after \<open>e.preventDefault()\<close> is inside \<open>try\<close>: a rejected \<open>fetch\<close>, a
  failed parse and the TypeError of \<open>undefined.replace\<close> all end in the alert of line 91.
\<close>

definition login_handleSubmit :: "to option option \<Rightarrow> fetched \<Rightarrow> login \<Rightarrow> login" where
  "login_handleSubmit location_state net st =
     (case net of
        FetchRejected e \<Rightarrow> addAlert (Some authentication_failed) st
      | Response ok body \<Rightarrow>
          (case body of
             JsonRejected e \<Rightarrow> addAlert (Some authentication_failed) st
           | JsonValue d \<Rightarrow>
               if \<not> ok then addAlert (detail d) st
               else
                 (case token d of
                    None \<Rightarrow> addAlert (Some authentication_failed) st
                  | Some t \<Rightarrow>
                      navigate (resolveDestination location_state)
                        (setToken (strip_quotes t) st))))"

section \<open>Some drafts\<close>

text \<open>
  Each is reached from the mounted page by one \<open>setNewObjectAttributes\<close>: two of the three
  model files and an image; one image and the metadata, no model; two images and three
  tags.
\<close>

definition two_model_files :: createArtifact where
  "two_model_files =
     setNewObjectAttributes
       (initial_attributes
          \<lparr>object := FileValue (File ''pot.obj'' [118, 32]),
           texture := FileValue (File ''pot.jpg'' [255, 216]),
           images := [File ''front.jpg'' [255, 216]]\<rparr>)
       mount"

definition images_only :: createArtifact where
  "images_only =
     setNewObjectAttributes
       (initial_attributes
          \<lparr>images := [File ''front.jpg'' [255, 216]],
           description := ''A pot'',
           shape := \<lparr>opt_id = JNumber 3, opt_value = ''jar''\<rparr>,
           culture := \<lparr>opt_id = JNumber 12, opt_value = ''Diaguita''\<rparr>\<rparr>)
       mount"

definition two_images_three_tags :: createArtifact where
  "two_images_three_tags =
     setNewObjectAttributes
       \<lparr>object = EmptyObject, texture = EmptyObject, material = EmptyObject,
        thumbnail = EmptyObject,
        images = [File ''front.jpg'' [255, 216], File ''back.png'' [137, 80]],
        description = ''A pot'',
        shape = \<lparr>opt_id = JNumber 3, opt_value = ''jar''\<rparr>,
        culture = \<lparr>opt_id = JNumber 12, opt_value = ''Diaguita''\<rparr>,
        tags = [\<lparr>opt_id = JNumber 7, opt_value = ''clay''\<rparr>,
                \<lparr>opt_id = JNumber 2, opt_value = ''red''\<rparr>,
                \<lparr>opt_id = JNumber 105, opt_value = ''painted''\<rparr>]\<rparr>
       mount"

text \<open>A successful answer of the upload endpoint.\<close>

definition created_42 :: fetched where
  "created_42 =
     Response True (JsonValue \<lparr>detail = None, token = None, data = Some (Some (JNumber 42))\<rparr>)"

section \<open>Properties of the string functions\<close>

lemma startsWith_iff: "startsWith s sub \<longleftrightarrow> (\<exists>q. s = sub @ q)"
  by (induction s sub rule: startsWith.induct) auto

lemma includes_iff: "str_includes s sub \<longleftrightarrow> (\<exists>p q. s = p @ sub @ q)"
proof (induction s)
  case Nil
  then show ?case by auto
next
  case (Cons d ds)
  show ?case
  proof
    assume "str_includes (d # ds) sub"
    then consider "startsWith (d # ds) sub" | "str_includes ds sub" by auto
    then show "\<exists>p q. d # ds = p @ sub @ q"
    proof cases
      case 1
      then obtain q where "d # ds = sub @ q" by (auto simp: startsWith_iff)
      then have "d # ds = [] @ sub @ q" by simp
      then show ?thesis by blast
    next
      case 2
      then obtain p q where "ds = p @ sub @ q" using Cons.IH by auto
      then have "d # ds = (d # p) @ sub @ q" by simp
      then show ?thesis by blast
    qed
  next
    assume "\<exists>p q. d # ds = p @ sub @ q"
    then obtain p q where pq: "d # ds = p @ sub @ q" by blast
    show "str_includes (d # ds) sub"
    proof (cases p)
      case Nil
      with pq have "startsWith (d # ds) sub" by (auto simp: startsWith_iff)
      then show ?thesis by simp
    next
      case (Cons e p')
      with pq have "ds = p' @ sub @ q" by simp
      then have "str_includes ds sub" using Cons.IH by blast
      then show ?thesis by simp
    qed
  qed
qed

section \<open>The redirect resolver\<close>

text \<open>
  C5 (as the code has it). When no \<open>from\<close> was recorded (no router state, or a state
  without \<open>from\<close>), the resolver navigates to the root route \<open>/\<close>, replacing the current
  history entry.
\<close>

theorem resolveDestination_no_origin:
  "resolveDestination None = \<lparr>target = ToString ''/'', replace = True\<rparr>
   \<and> resolveDestination (Some None) = \<lparr>target = ToString ''/'', replace = True\<rparr>"
  by (simp add: resolveDestination_def state_from_def or_root_def)

text \<open>
  C5 as stated fails: with nothing recorded the destination is not \<open>/catalog\<close>.
\<close>

theorem resolveDestination_no_origin_not_catalog:
  "target (resolveDestination None) \<noteq> ToString ''/catalog''"
  by (simp add: resolveDestination_def state_from_def or_root_def)

text \<open>
  C6 (as the code has it). For every recorded location whose pathname contains
  \<open>/reset-password\<close>, the segment of the password-reset route, the resolver calls
  \<open>navigate("/")\<close>: the destination is the root route \<open>/\<close>, which Login.jsx uses as its
  home, and not the recorded location.
\<close>

theorem resolveDestination_reset_password:
  assumes "pathname l = Some p" and "str_includes p ''/reset-password''"
  shows "resolveDestination (recorded l) = \<lparr>target = ToString ''/'', replace = False\<rparr>
         \<and> target (resolveDestination (recorded l)) = ToString ''/''
         \<and> target (resolveDestination (recorded l)) \<noteq> ToLocation l"
  using assms
  by (simp add: resolveDestination_def recorded_def state_from_def or_root_def
        pathname_of_def String_of_def)

theorem resolveDestination_reset_password_witness:
  "pathname \<lparr>pathname = Some ''/reset-password/abc'', search = [], hash = []\<rparr>
     = Some ''/reset-password/abc''
   \<and> str_includes ''/reset-password/abc'' ''/reset-password''
   \<and> resolveDestination
        (recorded \<lparr>pathname = Some ''/reset-password/abc'', search = [], hash = []\<rparr>)
     = \<lparr>target = ToString ''/'', replace = False\<rparr>"
  using resolveDestination_reset_password
    [of "\<lparr>pathname = Some ''/reset-password/abc'', search = [], hash = []\<rparr>"
        "''/reset-password/abc''"]
  by simp

text \<open>
  C6 as stated fails. The password-recovery route is \<open>/password-recovery\<close> (line 136 of
  Login.jsx navigates to it), and line 84 does not test for it: a recorded location with
  that pathname contains the password-recovery segment and is returned as the
  destination, which is neither \<open>/\<close> nor \<open>/catalog\<close>.
\<close>

theorem resolveDestination_password_recovery_returned:
  "str_includes ''/password-recovery'' ''/password-recovery''
   \<and> resolveDestination
        (recorded \<lparr>pathname = Some ''/password-recovery'', search = [], hash = []\<rparr>)
      = \<lparr>target = ToLocation \<lparr>pathname = Some ''/password-recovery'', search = [], hash = []\<rparr>,
         replace = True\<rparr>
   \<and> target (resolveDestination
        (recorded \<lparr>pathname = Some ''/password-recovery'', search = [], hash = []\<rparr>))
      \<noteq> ToString ''/''
   \<and> target (resolveDestination
        (recorded \<lparr>pathname = Some ''/password-recovery'', search = [], hash = []\<rparr>))
      \<noteq> ToString ''/catalog''"
  by (simp add: resolveDestination_def recorded_def state_from_def or_root_def pathname_of_def
      String_of_def)

text \<open>
  C7. For every recorded location whose pathname does not contain \<open>/reset-password\<close>,
  the resolver navigates to exactly that location, with \<open>replace: true\<close>.
\<close>

theorem resolveDestination_origin:
  assumes "\<not> str_includes (String_of (pathname l)) ''/reset-password''"
  shows "resolveDestination (recorded l) = \<lparr>target = ToLocation l, replace = True\<rparr>"
  using assms
  by (simp add: resolveDestination_def recorded_def state_from_def or_root_def pathname_of_def)

theorem resolveDestination_origin_witness:
  "\<not> str_includes (String_of (pathname \<lparr>pathname = Some ''/catalog/42'', search = '''', hash = ''''\<rparr>))
        ''/reset-password''
   \<and> resolveDestination (recorded \<lparr>pathname = Some ''/catalog/42'', search = '''', hash = ''''\<rparr>)
     = \<lparr>target = ToLocation \<lparr>pathname = Some ''/catalog/42'', search = '''', hash = ''''\<rparr>,
        replace = True\<rparr>"
  using resolveDestination_origin
    [of "\<lparr>pathname = Some ''/catalog/42'', search = '''', hash = ''''\<rparr>"]
  by (simp add: String_of_def)

text \<open>
  A \<open>from\<close> recorded as a plain path string is never inspected, as a string has no
  \<open>pathname\<close>: it is the destination whatever it contains.
\<close>

lemma resolveDestination_string:
  "s \<noteq> [] \<Longrightarrow>
   resolveDestination (Some (Some (ToString s))) = \<lparr>target = ToString s, replace = True\<rparr>"
  by (simp add: resolveDestination_def state_from_def or_root_def pathname_of_def String_of_def)

section \<open>The form data\<close>

lemma fold_formData_append:
  "fold (\<lambda>x. formData_append n (f x)) xs fd = fd @ map (\<lambda>x. (n, f x)) xs"
  by (induction xs arbitrary: fd) (simp_all add: formData_append_def)

lemma build_formData_eq:
  "build_formData a =
     [(''model[new_object]'', slot_entry (object a)),
      (''model[new_texture]'', slot_entry (texture a)),
      (''model[new_material]'', slot_entry (material a)),
      (''new_thumbnail'', slot_entry (thumbnail a))]
     @ map (\<lambda>image. (''new_images'', FileEntry image)) (images a)
     @ [(''description'', StringEntry (description a)),
        (''id_shape'', StringEntry (String_prim (Some (opt_id (shape a))))),
        (''id_culture'', StringEntry (String_prim (Some (opt_id (culture a)))))]
     @ map (\<lambda>tag. (''id_tags'', StringEntry (String_prim (Some (opt_id tag))))) (tags a)"
  by (simp add: build_formData_def Let_def fold_formData_append formData_append_def)

lemma getAll_append: "getAll n (xs @ ys) = getAll n xs @ getAll n ys"
  by (simp add: getAll_def)

lemma getAll_map_same: "getAll n (map (\<lambda>x. (n, f x)) xs) = map f xs"
  by (induction xs) (simp_all add: getAll_def)

lemma getAll_map_other: "m \<noteq> n \<Longrightarrow> getAll n (map (\<lambda>x. (m, f x)) xs) = []"
  by (induction xs) (simp_all add: getAll_def)

lemma getAll_Cons: "getAll n ((m, v) # fd) = (if m = n then v # getAll n fd else getAll n fd)"
  by (simp add: getAll_def)

lemma getAll_Nil: "getAll n [] = []"
  by (simp add: getAll_def)

lemmas getAll_simps = getAll_append getAll_map_same getAll_map_other getAll_Cons getAll_Nil

lemma getAll_images:
  "getAll ''new_images'' (build_formData a) = map FileEntry (images a)"
  by (simp add: build_formData_eq getAll_simps)

lemma getAll_tags:
  "getAll ''id_tags'' (build_formData a)
     = map (\<lambda>tag. StringEntry (String_prim (Some (opt_id tag)))) (tags a)"
  by (simp add: build_formData_eq getAll_simps)

lemma digits_examples:
  "digits 3 = ''3''" "digits 12 = ''12''" "digits 7 = ''7''" "digits 2 = ''2''"
  "digits 105 = ''105''" "digits 42 = ''42''"
  by (simp_all add: digits.simps)

section \<open>The flag \<open>modelRequired\<close>\<close>

lemma effect_modelRequired:
  "modelRequired (modelRequired_effect st) \<longleftrightarrow> model_file_attached (newObjectAttributes st)"
  by (simp add: modelRequired_effect_def)

lemma effect_attributes:
  "newObjectAttributes (modelRequired_effect st) = newObjectAttributes st"
  by (simp add: modelRequired_effect_def)

lemma set_attributes: "newObjectAttributes (setNewObjectAttributes a st) = a"
  by (simp add: setNewObjectAttributes_def Let_def effect_attributes)

text \<open>
  When the dependencies did not change the effect does not run, and the flag is right
  because it was right before.
\<close>

lemma set_modelRequired:
  assumes "modelRequired st \<longleftrightarrow> model_file_attached (newObjectAttributes st)"
  shows "modelRequired (setNewObjectAttributes a st) \<longleftrightarrow> model_file_attached a"
proof (cases "effect_deps a = effect_deps (newObjectAttributes st)")
  case True
  then have "modelRequired (setNewObjectAttributes a st) = modelRequired st"
    by (simp add: setNewObjectAttributes_def Let_def)
  moreover from True
  have "model_file_attached a \<longleftrightarrow> model_file_attached (newObjectAttributes st)"
    by (simp add: effect_deps_def)
  ultimately show ?thesis using assms by simp
next
  case False
  then have "setNewObjectAttributes a st = modelRequired_effect (st\<lparr>newObjectAttributes := a\<rparr>)"
    by (simp add: setNewObjectAttributes_def Let_def)
  then show ?thesis by (simp add: effect_modelRequired)
qed

lemma handleInputChange_modelRequired:
  "modelRequired (handleInputChange c st) = modelRequired st
   \<and> effect_deps (newObjectAttributes (handleInputChange c st))
       = effect_deps (newObjectAttributes st)"
  by (cases c)
    (simp_all add: handleInputChange_def setNewObjectAttributes_def Let_def effect_deps_def)

lemma handleSubmit_keeps_draft:
  "newObjectAttributes (snd (handleSubmit net st)) = newObjectAttributes st
   \<and> modelRequired (snd (handleSubmit net st)) = modelRequired st"
  by (simp add: handleSubmit_def addAlert_def navigate_def Let_def
      split: option.splits fetched.splits json_result.splits)

lemma reachable_modelRequired:
  "reachable st \<Longrightarrow> modelRequired st \<longleftrightarrow> model_file_attached (newObjectAttributes st)"
proof (induction rule: reachable.induct)
  case reach_mount
  show ?case
    by (simp add: mount_def modelRequired_effect_def initial_createArtifact_def
        initial_attributes_def instanceof_File_def)
next
  case (reach_set st a)
  then show ?case by (simp add: set_modelRequired set_attributes)
next
  case (reach_input st c)
  then show ?case
    using handleInputChange_modelRequired [of c st] by (simp add: effect_deps_def)
next
  case (reach_submit st net)
  then show ?case by (simp add: handleSubmit_keeps_draft)
qed

text \<open>
  C1. In every state the page can be in between two events, \<open>modelRequired\<close> is true
  exactly when one of \<open>object\<close>, \<open>texture\<close>, \<open>material\<close> is a \<open>File\<close>. The equivalence
  holds again after every \<open>setNewObjectAttributes\<close>, whatever the new draft is; and the
  other two handlers, which do not touch the three slots, leave the flag as it is.
\<close>

theorem modelRequired_derived:
  assumes "reachable st"
  shows "(modelRequired st \<longleftrightarrow> model_file_attached (newObjectAttributes st))
         \<and> (modelRequired (setNewObjectAttributes a st) \<longleftrightarrow> model_file_attached a)
         \<and> modelRequired (handleInputChange c st) = modelRequired st
         \<and> modelRequired (snd (handleSubmit net st)) = modelRequired st"
proof -
  have 1: "modelRequired st \<longleftrightarrow> model_file_attached (newObjectAttributes st)"
    using assms by (rule reachable_modelRequired)
  have 2: "modelRequired (setNewObjectAttributes a st) \<longleftrightarrow> model_file_attached a"
    using 1 by (rule set_modelRequired)
  show ?thesis
    using 1 2 handleInputChange_modelRequired [of c st] handleSubmit_keeps_draft [of net st]
    by simp
qed

theorem modelRequired_derived_witness:
  "reachable mount
   \<and> modelRequired mount = False
   \<and> modelRequired
       (setNewObjectAttributes
          (initial_attributes\<lparr>texture := FileValue (File ''pot.jpg'' [255, 216])\<rparr>) mount) = True"
proof -
  have r: "reachable mount" by (rule reach_mount)
  show ?thesis
    using r modelRequired_derived
      [OF r, of "initial_attributes\<lparr>texture := FileValue (File ''pot.jpg'' [255, 216])\<rparr>"]
    by (simp add: mount_def modelRequired_effect_def initial_createArtifact_def
        initial_attributes_def instanceof_File_def)
qed

section \<open>The gate of \<open>handleSubmit\<close>\<close>

lemma messages_differ: "IncompleteModelSet \<noteq> NoAssetProvided"
  by (simp add: IncompleteModelSet_def NoAssetProvided_def)

lemma handleSubmit_sends:
  "canSubmit st = None \<Longrightarrow>
   uploads (snd (handleSubmit net st)) = uploads st @ [build_formData (newObjectAttributes st)]"
  by (simp add: handleSubmit_def Let_def addAlert_def navigate_def
      split: fetched.splits json_result.splits option.splits)

lemma mount_eq:
  "mount =
     \<lparr>alerts = [], navigations = [], newObjectAttributes = initial_attributes,
      modelRequired = False, uploads = []\<rparr>"
  by (simp add: mount_def modelRequired_effect_def initial_createArtifact_def
      initial_attributes_def instanceof_File_def)

lemma two_model_files_eq:
  "two_model_files =
     \<lparr>alerts = [], navigations = [],
      newObjectAttributes =
        initial_attributes
          \<lparr>object := FileValue (File ''pot.obj'' [118, 32]),
           texture := FileValue (File ''pot.jpg'' [255, 216]),
           images := [File ''front.jpg'' [255, 216]]\<rparr>,
      modelRequired = True, uploads = []\<rparr>"
  by (simp add: two_model_files_def setNewObjectAttributes_def mount_eq
      modelRequired_effect_def initial_attributes_def effect_deps_def instanceof_File_def Let_def)

lemma images_only_eq:
  "images_only =
     \<lparr>alerts = [], navigations = [],
      newObjectAttributes =
        initial_attributes
          \<lparr>images := [File ''front.jpg'' [255, 216]],
           description := ''A pot'',
           shape := \<lparr>opt_id = JNumber 3, opt_value = ''jar''\<rparr>,
           culture := \<lparr>opt_id = JNumber 12, opt_value = ''Diaguita''\<rparr>\<rparr>,
      modelRequired = False, uploads = []\<rparr>"
  by (simp add: images_only_def setNewObjectAttributes_def mount_eq
      modelRequired_effect_def initial_attributes_def effect_deps_def instanceof_File_def Let_def)

lemma two_images_three_tags_eq:
  "two_images_three_tags =
     \<lparr>alerts = [], navigations = [],
      newObjectAttributes =
        \<lparr>object = EmptyObject, texture = EmptyObject, material = EmptyObject,
         thumbnail = EmptyObject,
         images = [File ''front.jpg'' [255, 216], File ''back.png'' [137, 80]],
         description = ''A pot'',
         shape = \<lparr>opt_id = JNumber 3, opt_value = ''jar''\<rparr>,
         culture = \<lparr>opt_id = JNumber 12, opt_value = ''Diaguita''\<rparr>,
         tags = [\<lparr>opt_id = JNumber 7, opt_value = ''clay''\<rparr>,
                 \<lparr>opt_id = JNumber 2, opt_value = ''red''\<rparr>,
                 \<lparr>opt_id = JNumber 105, opt_value = ''painted''\<rparr>]\<rparr>,
      modelRequired = False, uploads = []\<rparr>"
  by (simp add: two_images_three_tags_def setNewObjectAttributes_def mount_eq
      modelRequired_effect_def initial_attributes_def effect_deps_def instanceof_File_def Let_def)

lemma images_only_passes: "canSubmit images_only = None"
  by (simp add: images_only_eq canSubmit_def initial_attributes_def)

text \<open>
  C2. When \<open>modelRequired\<close> is true and one of the three slots is not a \<open>File\<close>,
  \<open>handleSubmit\<close> alerts with the text of line 122 and returns: no request is sent,
  whatever the network would have answered.
\<close>

theorem incomplete_model_rejected:
  assumes "modelRequired st"
    and "\<not> instanceof_File (object (newObjectAttributes st))
         \<or> \<not> instanceof_File (texture (newObjectAttributes st))
         \<or> \<not> instanceof_File (material (newObjectAttributes st))"
  shows "handleSubmit net st = (None, addAlert (Some IncompleteModelSet) st)
         \<and> uploads (snd (handleSubmit net st)) = uploads st
         \<and> alerts (snd (handleSubmit net st)) = alerts st @ [Some IncompleteModelSet]"
  using assms by (auto simp add: handleSubmit_def canSubmit_def Let_def addAlert_def)

theorem incomplete_model_rejected_witness:
  "modelRequired two_model_files
   \<and> \<not> instanceof_File (material (newObjectAttributes two_model_files))
   \<and> uploads (snd (handleSubmit created_42 two_model_files)) = []
   \<and> alerts (snd (handleSubmit created_42 two_model_files)) = [Some IncompleteModelSet]"
proof -
  have m: "modelRequired two_model_files"
    by (simp add: two_model_files_eq)
  have f: "\<not> instanceof_File (material (newObjectAttributes two_model_files))"
    by (simp add: two_model_files_eq initial_attributes_def instanceof_File_def)
  have d: "\<not> instanceof_File (object (newObjectAttributes two_model_files))
         \<or> \<not> instanceof_File (texture (newObjectAttributes two_model_files))
         \<or> \<not> instanceof_File (material (newObjectAttributes two_model_files))"
    using f by simp
  have u: "uploads two_model_files = []" "alerts two_model_files = []"
    by (simp_all add: two_model_files_eq)
  show ?thesis
    using m f u incomplete_model_rejected [OF m d, of created_42, THEN conjunct2] by simp
qed

text \<open>
  C3. When \<open>modelRequired\<close> is false: with no image, \<open>handleSubmit\<close> alerts with the text
  of line 126 and returns without sending a request; with at least one image the gate
  lets the draft through and the request is sent.
\<close>

theorem no_asset_rejected:
  assumes "\<not> modelRequired st"
  shows "(images (newObjectAttributes st) = [] \<longrightarrow>
            handleSubmit net st = (None, addAlert (Some NoAssetProvided) st)
            \<and> uploads (snd (handleSubmit net st)) = uploads st
            \<and> alerts (snd (handleSubmit net st)) = alerts st @ [Some NoAssetProvided])
         \<and> (images (newObjectAttributes st) \<noteq> [] \<longrightarrow>
            canSubmit st = None
            \<and> uploads (snd (handleSubmit net st))
                = uploads st @ [build_formData (newObjectAttributes st)])"
  using assms
  by (auto simp add: handleSubmit_def canSubmit_def Let_def addAlert_def navigate_def
      split: fetched.splits json_result.splits option.splits)

theorem no_asset_rejected_witness:
  "\<not> modelRequired mount
   \<and> images (newObjectAttributes mount) = []
   \<and> handleSubmit created_42 mount = (None, mount\<lparr>alerts := [Some NoAssetProvided]\<rparr>)
   \<and> \<not> modelRequired images_only
   \<and> images (newObjectAttributes images_only) = [File ''front.jpg'' [255, 216]]
   \<and> canSubmit images_only = None
   \<and> length (uploads (snd (handleSubmit created_42 images_only))) = 1"
proof -
  have m: "\<not> modelRequired mount" "images (newObjectAttributes mount) = []"
    by (simp_all add: mount_eq initial_attributes_def)
  have i: "\<not> modelRequired images_only"
    "images (newObjectAttributes images_only) = [File ''front.jpg'' [255, 216]]"
    by (simp_all add: images_only_eq initial_attributes_def)
  have a: "addAlert (Some NoAssetProvided) mount = mount\<lparr>alerts := [Some NoAssetProvided]\<rparr>"
    by (simp add: addAlert_def mount_eq)
  have 1: "handleSubmit created_42 mount = (None, mount\<lparr>alerts := [Some NoAssetProvided]\<rparr>)"
    using m a no_asset_rejected [of mount created_42] by simp
  have 2: "canSubmit images_only = None
           \<and> length (uploads (snd (handleSubmit created_42 images_only))) = 1"
    using i no_asset_rejected [of images_only created_42] by (simp add: images_only_eq)
  show ?thesis using m i 1 2 by simp
qed

text \<open>
  C9. In every state the page can be in between two events: with one or two of the three
  model files attached, \<open>handleSubmit\<close> alerts with the text of line 122 and sends
  nothing, whatever \<open>images\<close> holds; the gate answers with the text of line 126 only when
  no model file is attached; and with a model file attached the answer of the gate does
  not depend on \<open>images\<close>.
\<close>

theorem branches_exclusive:
  assumes "reachable st"
  shows "(model_file_attached (newObjectAttributes st)
          \<and> \<not> (instanceof_File (object (newObjectAttributes st))
               \<and> instanceof_File (texture (newObjectAttributes st))
               \<and> instanceof_File (material (newObjectAttributes st)))
          \<longrightarrow> handleSubmit net st = (None, addAlert (Some IncompleteModelSet) st)
              \<and> uploads (snd (handleSubmit net st)) = uploads st)
         \<and> (canSubmit st = Some NoAssetProvided
          \<longrightarrow> \<not> model_file_attached (newObjectAttributes st))
         \<and> (model_file_attached (newObjectAttributes st)
          \<longrightarrow> canSubmit (st\<lparr>newObjectAttributes := (newObjectAttributes st)\<lparr>images := imgs\<rparr>\<rparr>)
                = canSubmit st)"
proof -
  have i: "modelRequired st \<longleftrightarrow> model_file_attached (newObjectAttributes st)"
    using assms by (rule reachable_modelRequired)
  have a: "modelRequired st \<Longrightarrow>
           \<not> (instanceof_File (object (newObjectAttributes st))
               \<and> instanceof_File (texture (newObjectAttributes st))
               \<and> instanceof_File (material (newObjectAttributes st))) \<Longrightarrow>
           handleSubmit net st = (None, addAlert (Some IncompleteModelSet) st)
           \<and> uploads (snd (handleSubmit net st)) = uploads st"
    by (auto simp add: handleSubmit_def canSubmit_def Let_def addAlert_def)
  have b: "canSubmit st = Some NoAssetProvided \<Longrightarrow> \<not> modelRequired st"
    using messages_differ by (auto simp add: canSubmit_def Let_def split: if_splits)
  have c: "modelRequired st \<Longrightarrow>
           canSubmit (st\<lparr>newObjectAttributes := (newObjectAttributes st)\<lparr>images := imgs\<rparr>\<rparr>)
             = canSubmit st"
    by (simp add: canSubmit_def Let_def)
  show ?thesis using i a b c by blast
qed

theorem branches_exclusive_witness:
  "reachable two_model_files
   \<and> instanceof_File (object (newObjectAttributes two_model_files))
   \<and> \<not> instanceof_File (material (newObjectAttributes two_model_files))
   \<and> images (newObjectAttributes two_model_files) \<noteq> []
   \<and> handleSubmit created_42 two_model_files
      = (None, two_model_files\<lparr>alerts := [Some IncompleteModelSet]\<rparr>)"
proof -
  have r: "reachable two_model_files"
    unfolding two_model_files_def by (rule reach_set [OF reach_mount])
  have f: "instanceof_File (object (newObjectAttributes two_model_files))
           \<and> \<not> instanceof_File (material (newObjectAttributes two_model_files))
           \<and> images (newObjectAttributes two_model_files) \<noteq> []"
    by (simp add: two_model_files_eq initial_attributes_def instanceof_File_def)
  have h: "handleSubmit created_42 two_model_files
             = (None, addAlert (Some IncompleteModelSet) two_model_files)"
    using f branches_exclusive [OF r, of created_42] by blast
  have e: "addAlert (Some IncompleteModelSet) two_model_files
             = two_model_files\<lparr>alerts := [Some IncompleteModelSet]\<rparr>"
    by (simp add: addAlert_def two_model_files_eq)
  show ?thesis using r f h e by simp
qed

section \<open>The request that is sent\<close>

text \<open>
  C4. For every draft that passes the gate, the request that is sent has the entries
  \<open>model[new_object]\<close>, \<open>model[new_texture]\<close>, \<open>model[new_material]\<close>, \<open>new_thumbnail\<close>, one
  \<open>new_images\<close> per image in order, \<open>description\<close>, \<open>id_shape\<close> and \<open>id_culture\<close> (the id
  alone, as a string), and one \<open>id_tags\<close> per tag in order; so there are as many
  \<open>new_images\<close> entries as images and as many \<open>id_tags\<close> entries as tags.
\<close>

theorem formData_order:
  assumes "canSubmit st = None" and "newObjectAttributes st = a"
  shows "uploads (snd (handleSubmit net st)) = uploads st @ [build_formData a]
         \<and> build_formData a =
             [(''model[new_object]'', slot_entry (object a)),
              (''model[new_texture]'', slot_entry (texture a)),
              (''model[new_material]'', slot_entry (material a)),
              (''new_thumbnail'', slot_entry (thumbnail a))]
             @ map (\<lambda>image. (''new_images'', FileEntry image)) (images a)
             @ [(''description'', StringEntry (description a)),
                (''id_shape'', StringEntry (String_prim (Some (opt_id (shape a))))),
                (''id_culture'', StringEntry (String_prim (Some (opt_id (culture a)))))]
             @ map (\<lambda>tag. (''id_tags'', StringEntry (String_prim (Some (opt_id tag))))) (tags a)
         \<and> getAll ''new_images'' (build_formData a) = map FileEntry (images a)
         \<and> getAll ''id_tags'' (build_formData a)
             = map (\<lambda>tag. StringEntry (String_prim (Some (opt_id tag)))) (tags a)"
proof -
  have "uploads (snd (handleSubmit net st)) = uploads st @ [build_formData a]"
    using assms handleSubmit_sends [of st net] by simp
  then show ?thesis
    using build_formData_eq [of a] getAll_images [of a] getAll_tags [of a] by simp
qed

theorem formData_order_witness:
  "canSubmit two_images_three_tags = None
   \<and> uploads (snd (handleSubmit created_42 two_images_three_tags))
      = [[(''model[new_object]'', StringEntry ''[object Object]''),
          (''model[new_texture]'', StringEntry ''[object Object]''),
          (''model[new_material]'', StringEntry ''[object Object]''),
          (''new_thumbnail'', StringEntry ''[object Object]''),
          (''new_images'', FileEntry (File ''front.jpg'' [255, 216])),
          (''new_images'', FileEntry (File ''back.png'' [137, 80])),
          (''description'', StringEntry ''A pot''),
          (''id_shape'', StringEntry ''3''),
          (''id_culture'', StringEntry ''12''),
          (''id_tags'', StringEntry ''7''),
          (''id_tags'', StringEntry ''2''),
          (''id_tags'', StringEntry ''105'')]]
   \<and> length (getAll ''new_images'' (build_formData (newObjectAttributes two_images_three_tags))) = 2
   \<and> length (getAll ''id_tags'' (build_formData (newObjectAttributes two_images_three_tags))) = 3"
proof -
  let ?a = "newObjectAttributes two_images_three_tags"
  have c: "canSubmit two_images_three_tags = None"
    by (simp add: two_images_three_tags_eq canSubmit_def)
  note t = formData_order [OF c refl, of created_42]
  have u: "uploads (snd (handleSubmit created_42 two_images_three_tags)) = [build_formData ?a]"
    using t by (simp add: two_images_three_tags_eq)
  have b: "build_formData ?a =
       [(''model[new_object]'', StringEntry ''[object Object]''),
        (''model[new_texture]'', StringEntry ''[object Object]''),
        (''model[new_material]'', StringEntry ''[object Object]''),
        (''new_thumbnail'', StringEntry ''[object Object]''),
        (''new_images'', FileEntry (File ''front.jpg'' [255, 216])),
        (''new_images'', FileEntry (File ''back.png'' [137, 80])),
        (''description'', StringEntry ''A pot''),
        (''id_shape'', StringEntry ''3''),
        (''id_culture'', StringEntry ''12''),
        (''id_tags'', StringEntry ''7''),
        (''id_tags'', StringEntry ''2''),
        (''id_tags'', StringEntry ''105'')]"
    using t by (simp add: two_images_three_tags_eq slot_entry_def String_prim_def digits_examples)
  have i: "length (getAll ''new_images'' (build_formData ?a)) = 2"
    using t [THEN conjunct2, THEN conjunct2, THEN conjunct1]
    by (simp add: two_images_three_tags_eq)
  have g: "length (getAll ''id_tags'' (build_formData ?a)) = 3"
    using t [THEN conjunct2, THEN conjunct2, THEN conjunct2]
    by (simp add: two_images_three_tags_eq)
  show ?thesis using c u b i g by simp
qed

text \<open>
  C10. For every draft that passes the gate, the request that is sent has exactly one
  entry under each of \<open>model[new_object]\<close>, \<open>model[new_texture]\<close>, \<open>model[new_material]\<close>
  and \<open>new_thumbnail\<close>, made from whatever the slot holds; for a slot that holds the empty
  object, the entry is that object as \<open>append\<close> stores it, the string \<open>[object Object]\<close>.
\<close>

theorem model_fields_always_present:
  assumes "canSubmit st = None" and "newObjectAttributes st = a"
  shows "uploads (snd (handleSubmit net st)) = uploads st @ [build_formData a]
         \<and> getAll ''model[new_object]'' (build_formData a) = [slot_entry (object a)]
         \<and> getAll ''model[new_texture]'' (build_formData a) = [slot_entry (texture a)]
         \<and> getAll ''model[new_material]'' (build_formData a) = [slot_entry (material a)]
         \<and> getAll ''new_thumbnail'' (build_formData a) = [slot_entry (thumbnail a)]
         \<and> slot_entry EmptyObject = StringEntry ''[object Object]''"
proof -
  have "uploads (snd (handleSubmit net st)) = uploads st @ [build_formData a]"
    using assms handleSubmit_sends [of st net] by simp
  moreover have "getAll ''model[new_object]'' (build_formData a) = [slot_entry (object a)]"
    by (simp add: build_formData_eq getAll_simps)
  moreover have "getAll ''model[new_texture]'' (build_formData a) = [slot_entry (texture a)]"
    by (simp add: build_formData_eq getAll_simps)
  moreover have "getAll ''model[new_material]'' (build_formData a) = [slot_entry (material a)]"
    by (simp add: build_formData_eq getAll_simps)
  moreover have "getAll ''new_thumbnail'' (build_formData a) = [slot_entry (thumbnail a)]"
    by (simp add: build_formData_eq getAll_simps)
  moreover have "slot_entry EmptyObject = StringEntry ''[object Object]''"
    by (simp add: slot_entry_def)
  ultimately show ?thesis by simp
qed

theorem model_fields_always_present_witness:
  "canSubmit images_only = None
   \<and> getAll ''model[new_object]'' (build_formData (newObjectAttributes images_only))
       = [StringEntry ''[object Object]'']
   \<and> getAll ''model[new_texture]'' (build_formData (newObjectAttributes images_only))
       = [StringEntry ''[object Object]'']
   \<and> getAll ''model[new_material]'' (build_formData (newObjectAttributes images_only))
       = [StringEntry ''[object Object]'']
   \<and> getAll ''new_thumbnail'' (build_formData (newObjectAttributes images_only))
       = [StringEntry ''[object Object]'']"
proof -
  have c: "canSubmit images_only = None" by (rule images_only_passes)
  have s: "object (newObjectAttributes images_only) = EmptyObject"
    "texture (newObjectAttributes images_only) = EmptyObject"
    "material (newObjectAttributes images_only) = EmptyObject"
    "thumbnail (newObjectAttributes images_only) = EmptyObject"
    by (simp_all add: images_only_eq initial_attributes_def)
  show ?thesis
    using c model_fields_always_present [OF c refl, of created_42] by (simp add: s)
qed

section \<open>Failures\<close>

text \<open>
  No handler of either page changes the input of the user: the draft and the flag on the
  upload page, the credentials on the login page.
\<close>

lemma login_keeps_formValues:
  "formValues (login_handleSubmit location_state net st) = formValues st"
  by (simp add: login_handleSubmit_def addAlert_def navigate_def setToken_def
      split: fetched.splits json_result.splits option.splits)

text \<open>
  On the login page a rejected \<open>fetch\<close>, a body that does not parse and a response that
  is not \<open>ok\<close> each end in one alert, and nothing else changes.
\<close>

lemma login_failure_alert:
  "login_handleSubmit location_state (FetchRejected e) st
     = addAlert (Some authentication_failed) st"
  "login_handleSubmit location_state (Response ok (JsonRejected e)) st
     = addAlert (Some authentication_failed) st"
  "login_handleSubmit location_state (Response False (JsonValue d)) st
     = addAlert (detail d) st"
  by (simp_all add: login_handleSubmit_def)

text \<open>
  On the upload page a response that is not \<open>ok\<close> and a body that does not parse end in
  one alert, with the server's \<open>detail\<close> and the parser's message.
\<close>

lemma upload_rejection_alert:
  assumes "canSubmit st = None"
  shows "handleSubmit (Response False (JsonValue d)) st
           = (None, addAlert (Some (Error_message (detail d)))
                (st\<lparr>uploads := uploads st @ [build_formData (newObjectAttributes st)]\<rparr>))"
    and "handleSubmit (Response ok (JsonRejected e)) st
           = (None, addAlert (Some e)
                (st\<lparr>uploads := uploads st @ [build_formData (newObjectAttributes st)]\<rparr>))"
  using assms by (simp_all add: handleSubmit_def Let_def)

text \<open>
  C8 fails on the upload page for a transport failure. For every draft that passes the
  gate, when \<open>fetch\<close> rejects, the promise of \<open>handleSubmit\<close> rejects with the same error
  and no alert is added: the error is not handled in \<open>handleSubmit\<close> and no message is
  shown. (The draft is unchanged, by \<open>handleSubmit_keeps_draft\<close>.)
\<close>

theorem upload_fetch_rejection_uncaught:
  assumes "canSubmit st = None"
  shows "handleSubmit (FetchRejected e) st
           = (Some e, st\<lparr>uploads := uploads st @ [build_formData (newObjectAttributes st)]\<rparr>)
         \<and> alerts (snd (handleSubmit (FetchRejected e) st)) = alerts st"
  using assms by (simp add: handleSubmit_def Let_def)

theorem upload_fetch_rejection_uncaught_witness:
  "canSubmit images_only = None
   \<and> fst (handleSubmit (FetchRejected ''Failed to fetch'') images_only) = Some ''Failed to fetch''
   \<and> alerts (snd (handleSubmit (FetchRejected ''Failed to fetch'') images_only)) = []"
proof -
  have c: "canSubmit images_only = None" by (rule images_only_passes)
  show ?thesis
    using c upload_fetch_rejection_uncaught [OF c, of "''Failed to fetch''"]
    by (simp add: images_only_eq)
qed

end
